theory Spec2Isabelle
  imports
    Complex_Main
    "HOL-Library.Char_ord"
    "HOL-Library.List_Lexorder"
    "HOL-Library.AList"
    "HOL-Library.Multiset"
    "HOL-Library.Sublist"
begin

section \<open>Strings\<close>

text \<open>
  A JavaScript string is modelled as a \<^typ>\<open>string\<close>: a list of code units, each below
  256 (the Latin-1 range). \<open>substring\<close>, \<open>slice\<close>, \<open>startsWith\<close> and the default
  comparison of \<open>Array.prototype.sort\<close> all count and compare code units, which is what the
  list operations and the lexicographic order on \<^typ>\<open>char list\<close> do.
\<close>

definition isSpace :: "char \<Rightarrow> bool" where
  \<comment> \<open>the class \<open>\s\<close> of a regular expression, and what \<open>trim\<close> strips: TAB, LF, VT, FF, CR,
      SPACE and NBSP are its members below 256\<close>
  "isSpace c = ((of_char c :: nat) \<in> {9, 10, 11, 12, 13, 32, 160})"

definition isUpper :: "char \<Rightarrow> bool" where
  \<comment> \<open>the code units below 256 that \<open>toLowerCase\<close> changes: A-Z, and U+00C0-U+00DE but U+00D7\<close>
  "isUpper c = (let n = (of_char c :: nat) in
     (65 \<le> n \<and> n \<le> 90) \<or> (192 \<le> n \<and> n \<le> 222 \<and> n \<noteq> 215))"

fun lowerChar :: "char \<Rightarrow> char" where
  \<comment> \<open>the lower-case letter is 32 above the upper-case one: bit 5 is set\<close>
  "lowerChar (Char b0 b1 b2 b3 b4 b5 b6 b7) =
     (if isUpper (Char b0 b1 b2 b3 b4 b5 b6 b7) then Char b0 b1 b2 b3 b4 True b6 b7
      else Char b0 b1 b2 b3 b4 b5 b6 b7)"

definition toLowerCase :: "string \<Rightarrow> string" where
  "toLowerCase s = map lowerChar s"

definition stripWhitespace :: "string \<Rightarrow> string" where
  \<comment> \<open>\<open>s.replace(/\s+/g, '')\<close> and \<open>s.replace(/\s/g, '')\<close>: both delete every white-space unit\<close>
  "stripWhitespace s = filter (\<lambda>c. \<not> isSpace c) s"

definition trim :: "string \<Rightarrow> string" where
  "trim s = rev (dropWhile isSpace (rev (dropWhile isSpace s)))"

definition startsWith :: "string \<Rightarrow> string \<Rightarrow> bool" where
  \<comment> \<open>\<open>s.startsWith(p)\<close>\<close>
  "startsWith s p = (take (length p) s = p)"

definition endsWith :: "string \<Rightarrow> string \<Rightarrow> bool" where
  \<comment> \<open>\<open>s.endsWith(p)\<close>\<close>
  "endsWith s p = (length p \<le> length s \<and> drop (length s - length p) s = p)"

fun join :: "string \<Rightarrow> string list \<Rightarrow> string" where
  \<comment> \<open>\<open>xs.join(sep)\<close>\<close>
  "join sep [] = []"
| "join sep [x] = x"
| "join sep (x # y # ys) = x @ sep @ join sep (y # ys)"

definition digit :: "nat \<Rightarrow> char" where
  "digit d = (''0123456789'' ! d)"

fun string_of_nat :: "nat \<Rightarrow> string" where
  \<comment> \<open>the decimal digits a template literal prints for a non-negative integer\<close>
  "string_of_nat n =
     (if n < 10 then [digit n] else string_of_nat (n div 10) @ [digit (n mod 10)])"

declare string_of_nat.simps [simp del]

definition string_of_int :: "int \<Rightarrow> string" where
  "string_of_int i = (if i < 0 then CHR ''-'' # string_of_nat (nat (- i)) else string_of_nat (nat i))"

section \<open>Data model (types.ts)\<close>

record UserProfile =
  name :: string
  hasOnboarded :: bool
  interests :: "string list"
  spotifyConnected :: bool
  topArtists :: "string list"
  currentCity :: string

datatype RecommendationLevel = HIGHLY_RECOMMENDED | CONSIDER | NOT_RECOMMENDED

text \<open>
  \<open>EventItem\<close> as the interface declares it; an optional field is an \<^typ>\<open>'a option\<close>,
  \<^const>\<open>None\<close> for \<open>undefined\<close>. The field \<open>id\<close> is written \<open>id_ev\<close> (\<^const>\<open>id\<close> is
  the identity function of HOL).
\<close>

record EventItem =
  id_ev :: string
  title :: string
  description :: string
  date :: string
  location :: string
  category :: string
  imageUrl :: "string option"
  link :: "string option"
  recommendationLevel :: "RecommendationLevel option"
  justification :: "string option"
  price :: "string option"
  coordinates :: "(real \<times> real) option"
  isUserCreated :: "bool option"

text \<open>
  What \<open>JSON.parse\<close> returns, and what the service handles under the type \<open>any[]\<close>: the
  casts to \<open>EventItem[]\<close> in geminiService.ts check nothing at run time. A number is a
  \<^typ>\<open>real\<close>; the code only tests it against zero and passes it on. An object is the list
  of its own properties in their order.
\<close>

datatype json =
    JNull
  | JBool bool
  | JNum real
  | JStr string
  | JArr "json list"
  | JObj "(string \<times> json) list"

fun truthy :: "json \<Rightarrow> bool" where
  \<comment> \<open>JavaScript's ToBoolean on a JSON value\<close>
  "truthy JNull = False"
| "truthy (JBool b) = b"
| "truthy (JNum x) = (x \<noteq> 0)"
| "truthy (JStr s) = (s \<noteq> [])"
| "truthy (JArr xs) = True"
| "truthy (JObj kvs) = True"


fun getProp :: "json \<Rightarrow> string \<Rightarrow> json option" where
  \<comment> \<open>\<open>ev.k\<close> for an object and one of the keys the service reads (\<open>id\<close>, \<open>title\<close>,
      \<open>imageUrl\<close>, \<open>link\<close>), none of which \<open>Object.prototype\<close> has\<close>
  "getProp (JObj kvs) k = map_of kvs k"
| "getProp _ k = None"

datatype error =
    Error string
  | TypeError
  | SyntaxError
  | URIError
  | QuotaExceededError
  | CollaboratorError string

fun orElse :: "json option \<Rightarrow> error + json \<Rightarrow> error + json" where
  \<comment> \<open>\<open>a || b\<close>, where \<^const>\<open>None\<close> is \<open>undefined\<close> and \<open>b\<close>, evaluated only when \<open>a\<close> is
      falsy, may throw\<close>
  "orElse None b = b"
| "orElse (Some a) b = (if truthy a then Inr a else b)"

section \<open>The platform\<close>

text \<open>\<open>localStorage\<close>: the entries in the order \<open>Object.keys\<close> lists them.\<close>

type_synonym storage = "(string \<times> string) list"

datatype prompt =
    IdentifyCityPrompt real real
  | SearchPrompt string string
  | DailyPrompt string UserProfile

text \<open>
  What the repository calls and does not define. A request to the model is a
  \<^typ>\<open>prompt\<close>: the template of each call is fixed text around the arguments kept here.
  \<open>generateContent\<close> returns \<open>response.text\<close> (\<^const>\<open>None\<close> for \<open>undefined\<close>) or throws.
  \<open>JSON_parse\<close> returns \<^const>\<open>None\<close> where \<open>JSON.parse\<close> throws a SyntaxError,
  \<open>encodeURIComponent\<close> where it throws a URIError, \<open>ToString\<close> where the conversion of a
  value that is not a string to a string throws a TypeError. \<open>storage_fits\<close> says whether
  the storage still fits the quota after a write.
\<close>

record platform =
  API_KEY :: "string option"
  generateContent :: "prompt \<Rightarrow> error + string option"
  JSON_parse :: "string \<Rightarrow> json option"
  JSON_stringify :: "json \<Rightarrow> string"
  ToString :: "json \<Rightarrow> string option"
  encodeURIComponent :: "string \<Rightarrow> string option"
  storage_fits :: "storage \<Rightarrow> bool"

definition getItem :: "storage \<Rightarrow> string \<Rightarrow> string option" where
  "getItem st k = map_of st k"

definition removeItem :: "string \<Rightarrow> storage \<Rightarrow> storage" where
  "removeItem k st = AList.delete k st"

definition setItem :: "platform \<Rightarrow> string \<Rightarrow> string \<Rightarrow> storage \<Rightarrow> error + storage" where
  "setItem P k v st =
     (let st' = AList.update k v st
      in if storage_fits P st' then Inr st' else Inl QuotaExceededError)"

definition keys :: "storage \<Rightarrow> string list" where
  \<comment> \<open>\<open>Object.keys(localStorage)\<close>: a snapshot of the keys\<close>
  "keys st = map fst st"

text \<open>
  The world a service call runs in: the storage, and the requests sent to the model so far.
\<close>

record world =
  store :: storage
  requests :: "prompt list"

section \<open>services/geminiService.ts\<close>

definition getAIClient :: "platform \<Rightarrow> error + unit" where
  "getAIClient P =
     (case API_KEY P of
        None \<Rightarrow> Inl (Error ''API Key not found'')
      | Some k \<Rightarrow> if k = [] then Inl (Error ''API Key not found'') else Inr ())"

definition CACHE_KEY_PREFIX :: string where
  "CACHE_KEY_PREFIX = ''CITYSENSE_EVENTS_CACHE_''"

definition generateCacheKey :: "string \<Rightarrow> string \<Rightarrow> UserProfile \<Rightarrow> string" where
  \<comment> \<open>\<open>dateStr\<close> is \<open>new Date().toDateString()\<close>, read by the caller\<close>
  "generateCacheKey dateStr city userProfile =
     (let interestsStr = join ''-'' (sort (interests userProfile));
          cityClean = toLowerCase (stripWhitespace city)
      in CACHE_KEY_PREFIX @ dateStr @ ''_'' @ cityClean @ ''_'' @ interestsStr)"

definition stripFence :: "string \<Rightarrow> string" where
  \<comment> \<open>lines 30-34 of \<open>cleanAndParseJSON\<close>\<close>
  "stripFence text =
     (let clean = trim text;
          clean = (if startsWith clean ''```json'' then drop 7 clean else clean);
          clean = (if startsWith clean ''```'' then drop 3 clean else clean);
          clean = (if endsWith clean ''```'' then take (length clean - 3) clean else clean)
      in clean)"

definition cleanAndParseJSON :: "platform \<Rightarrow> string option \<Rightarrow> json" where
  "cleanAndParseJSON P text =
     (case text of
        None \<Rightarrow> JArr []
      | Some t \<Rightarrow>
          if t = [] then JArr []
          else (case JSON_parse P (stripFence t) of
                  None \<Rightarrow> JArr []
                | Some v \<Rightarrow> v))"

definition identifyCityFromCoords :: "platform \<Rightarrow> real \<Rightarrow> real \<Rightarrow> world \<Rightarrow> string \<times> world" where
  "identifyCityFromCoords P lat lng w =
     (case getAIClient P of
        Inl e \<Rightarrow> (''Unknown Location'', w)
      | Inr _ \<Rightarrow>
          (let w1 = w\<lparr>requests := requests w @ [IdentifyCityPrompt lat lng]\<rparr>
           in case generateContent P (IdentifyCityPrompt lat lng) of
                Inl e \<Rightarrow> (''Unknown Location'', w1)
              | Inr None \<Rightarrow> (''Unknown Location'', w1)
              | Inr (Some t) \<Rightarrow>
                  (if trim t = [] then (''Unknown Location'', w1) else (trim t, w1))))"

definition synthId :: "string \<Rightarrow> string \<Rightarrow> nat \<Rightarrow> int \<Rightarrow> string" where
  \<comment> \<open>the template \<open>`evt-${city.substring(0,3)}-${idx}-${Date.now()}`\<close>, and the one of
      \<open>searchEvents\<close> with \<open>search\<close> for \<open>evt\<close>\<close>
  "synthId src city idx ts =
     src @ ''-'' @ take 3 city @ ''-'' @ string_of_nat idx @ ''-'' @ string_of_int ts"

definition placeholderImage :: "json \<Rightarrow> nat \<Rightarrow> error + json" where
  \<comment> \<open>\<open>`https://picsum.photos/seed/${ev.title.replace(/\s/g, '')}${idx}/800/600`\<close>:
      \<open>replace\<close> is a method of strings only, so any other title is a TypeError\<close>
  "placeholderImage ev idx =
     (case getProp ev ''title'' of
        Some (JStr t) \<Rightarrow>
          Inr (JStr (''https://picsum.photos/seed/'' @ stripWhitespace t @ string_of_nat idx
                     @ ''/800/600''))
      | _ \<Rightarrow> Inl TypeError)"

definition searchLink :: "platform \<Rightarrow> json \<Rightarrow> string \<Rightarrow> error + json" where
  \<comment> \<open>\<open>`https://www.google.com/search?q=${encodeURIComponent(ev.title + ' ' + city + ' tickets')}`\<close>\<close>
  "searchLink P ev city =
     (case (case getProp ev ''title'' of
              None \<Rightarrow> Some ''undefined''
            | Some (JStr t) \<Rightarrow> Some t
            | Some v \<Rightarrow> ToString P v) of
        None \<Rightarrow> Inl TypeError
      | Some t \<Rightarrow>
          (case encodeURIComponent P (t @ '' '' @ city @ '' tickets'') of
             None \<Rightarrow> Inl URIError
           | Some q \<Rightarrow> Inr (JStr (''https://www.google.com/search?q='' @ q))))"

text \<open>
  The callback of \<open>events.map\<close> (lines 109-116 and 186-193): the spread copies the own
  properties of \<open>ev\<close>, then \<open>id\<close>, \<open>imageUrl\<close> and \<open>link\<close> are written, in place where the key
  exists and at the end otherwise. \<open>clock idx\<close> is what \<open>Date.now()\<close> reads while the element
  at \<open>idx\<close> is mapped. An element that is not an object throws: \<open>null.id\<close> at once, any other
  value at \<open>ev.title.replace\<close>, since its \<open>imageUrl\<close> and \<open>title\<close> are undefined.
\<close>

definition normalizeEvent ::
  "platform \<Rightarrow> string \<Rightarrow> string \<Rightarrow> (nat \<Rightarrow> int) \<Rightarrow> nat \<Rightarrow> json \<Rightarrow> error + json" where
  "normalizeEvent P src city clock idx ev =
     (case ev of
        JObj kvs \<Rightarrow>
          (case orElse (getProp ev ''id'') (Inr (JStr (synthId src city idx (clock idx)))) of
             Inl e \<Rightarrow> Inl e
           | Inr id' \<Rightarrow>
               (case orElse (getProp ev ''imageUrl'') (placeholderImage ev idx) of
                  Inl e \<Rightarrow> Inl e
                | Inr imageUrl' \<Rightarrow>
                    (case orElse (getProp ev ''link'') (searchLink P ev city) of
                       Inl e \<Rightarrow> Inl e
                     | Inr link' \<Rightarrow>
                         Inr (JObj (AList.update ''link'' link'
                                     (AList.update ''imageUrl'' imageUrl'
                                       (AList.update ''id'' id' kvs)))))))
      | _ \<Rightarrow> Inl TypeError)"

fun mapEvents :: "(nat \<Rightarrow> json \<Rightarrow> error + json) \<Rightarrow> nat \<Rightarrow> json list \<Rightarrow> error + json list" where
  \<comment> \<open>\<open>Array.prototype.map\<close> with the index, left to right; the first exception ends it\<close>
  "mapEvents f idx [] = Inr []"
| "mapEvents f idx (ev # evs) =
     (case f idx ev of
        Inl e \<Rightarrow> Inl e
      | Inr ev' \<Rightarrow>
          (case mapEvents f (Suc idx) evs of
             Inl e \<Rightarrow> Inl e
           | Inr evs' \<Rightarrow> Inr (ev' # evs')))"

definition normalizeEvents ::
  "platform \<Rightarrow> string \<Rightarrow> string \<Rightarrow> (nat \<Rightarrow> int) \<Rightarrow> json \<Rightarrow> error + json list" where
  \<comment> \<open>\<open>events.map(...)\<close> on what \<open>cleanAndParseJSON\<close> returned: only an array has \<open>map\<close>\<close>
  "normalizeEvents P src city clock parsed =
     (case parsed of
        JArr evs \<Rightarrow> mapEvents (normalizeEvent P src city clock) 0 evs
      | _ \<Rightarrow> Inl TypeError)"


definition checkCache :: "platform \<Rightarrow> string \<Rightarrow> storage \<Rightarrow> json + storage" where
  \<comment> \<open>step 1 (lines 128-139): \<^const>\<open>Inl\<close> is the early return of the parsed payload,
      \<^const>\<open>Inr\<close> the storage the load goes on with\<close>
  "checkCache P cacheKey st =
     (case getItem st cacheKey of
        None \<Rightarrow> Inr st
      | Some cachedData \<Rightarrow>
          if cachedData = [] then Inr st
          else (case JSON_parse P cachedData of
                  Some parsedEvents \<Rightarrow> Inl parsedEvents
                | None \<Rightarrow> Inr (removeItem cacheKey st)))"

definition cleanupOldCaches :: "string \<Rightarrow> storage \<Rightarrow> storage" where
  \<comment> \<open>step 2 (lines 142-146)\<close>
  "cleanupOldCaches cacheKey st =
     fold (\<lambda>key s. if startsWith key CACHE_KEY_PREFIX \<and> key \<noteq> cacheKey
                    then removeItem key s else s)
          (keys st) st"

definition fetchFresh ::
  "platform \<Rightarrow> (nat \<Rightarrow> int) \<Rightarrow> string \<Rightarrow> string \<Rightarrow> UserProfile \<Rightarrow> world \<Rightarrow> json \<times> world" where
  \<comment> \<open>steps 3 and 4 (lines 149-205)\<close>
  "fetchFresh P clock cacheKey city userProfile w =
     (case getAIClient P of
        Inl e \<Rightarrow> (JArr [], w)
      | Inr _ \<Rightarrow>
          (let w1 = w\<lparr>requests := requests w @ [DailyPrompt city userProfile]\<rparr>
           in case generateContent P (DailyPrompt city userProfile) of
                Inl e \<Rightarrow> (JArr [], w1)
              | Inr text \<Rightarrow>
                  (case normalizeEvents P ''evt'' city clock (cleanAndParseJSON P text) of
                     Inl e \<Rightarrow> (JArr [], w1)
                   | Inr events \<Rightarrow>
                       if length events > 0
                       then (case setItem P cacheKey (JSON_stringify P (JArr events)) (store w1) of
                               Inl e \<Rightarrow> (JArr [], w1)
                             | Inr st' \<Rightarrow> (JArr events, w1\<lparr>store := st'\<rparr>))
                       else (JArr events, w1))))"

definition getInitialRecommendations ::
  "platform \<Rightarrow> string \<Rightarrow> (nat \<Rightarrow> int) \<Rightarrow> string \<Rightarrow> UserProfile \<Rightarrow> world \<Rightarrow> json \<times> world" where
  \<comment> \<open>\<open>today\<close> is \<open>new Date().toDateString()\<close> at the call. The load is one step: nothing
      else writes the storage while it awaits the model\<close>
  "getInitialRecommendations P today clock city userProfile w =
     (let cacheKey = generateCacheKey today city userProfile
      in case checkCache P cacheKey (store w) of
           Inl parsedEvents \<Rightarrow> (parsedEvents, w)
         | Inr st1 \<Rightarrow>
             fetchFresh P clock cacheKey city userProfile
               (w\<lparr>store := cleanupOldCaches cacheKey st1\<rparr>))"

section \<open>components/Dashboard.tsx\<close>

datatype geolocation =
    Unsupported
  | PositionError
  | Position real real

text \<open>
  \<open>Unsupported\<close>: \<open>navigator\<close> has no \<open>geolocation\<close>; \<open>PositionError\<close>: \<open>getCurrentPosition\<close>
  called the error callback (permission denied, position unavailable, timeout);
  \<open>Position latitude longitude\<close>: it called the success callback.
\<close>

record dashboard =
  events :: json
  loading :: bool
  error :: "string option"

definition resolveCity ::
  "platform \<Rightarrow> geolocation \<Rightarrow> UserProfile \<Rightarrow> world \<Rightarrow> string \<times> string list \<times> world" where
  \<comment> \<open>lines 50-71 of \<open>init\<close>: the city the load runs with, the calls of \<open>updateCity\<close>, the world\<close>
  "resolveCity P geo userProfile w =
     (if currentCity userProfile = [] then
        (case geo of
           Position latitude longitude \<Rightarrow>
             (let (city, w') = identifyCityFromCoords P latitude longitude w
              in (city, [city], w'))
         | PositionError \<Rightarrow> (''New York, USA'', [''New York, USA''], w)
         | Unsupported \<Rightarrow> (''New York, USA'', [''New York, USA''], w))
      else (currentCity userProfile, [], w))"

text \<open>
  \<open>init\<close> (lines 47-80). The handler of line 76, which sets \<open>error\<close>, runs when the body
  throws; \<open>resolveCity\<close> and \<open>getInitialRecommendations\<close> return a value on every path (each
  catches what it calls), so the body is the \<^const>\<open>Inr\<close> of their result.
\<close>

definition init ::
  "platform \<Rightarrow> geolocation \<Rightarrow> string \<Rightarrow> (nat \<Rightarrow> int) \<Rightarrow> UserProfile \<Rightarrow> dashboard \<Rightarrow> world
     \<Rightarrow> dashboard \<times> string list \<times> world" where
  "init P geo today clock userProfile d w =
     (let d1 = d\<lparr>loading := True\<rparr>;
          (city, updates, w1) = resolveCity P geo userProfile w;
          body = (Inr (getInitialRecommendations P today clock city userProfile w1)
                    :: error + json \<times> world)
      in case body of
           Inr (recommendedEvents, w2) \<Rightarrow>
             (d1\<lparr>events := recommendedEvents, loading := False\<rparr>, updates, w2)
         | Inl err \<Rightarrow>
             (d1\<lparr>error := Some ''Failed to load events. Please try refreshing.'',
                 loading := False\<rparr>, updates, w1))"

definition allEvents :: "EventItem list \<Rightarrow> EventItem list \<Rightarrow> EventItem list" where
  "allEvents userEvents evs = userEvents @ evs"

definition topPicks :: "EventItem list \<Rightarrow> EventItem list" where
  \<comment> \<open>\<open>e.isUserCreated\<close>, of type \<open>boolean | undefined\<close>, is truthy when it is \<open>true\<close>\<close>
  "topPicks all =
     filter (\<lambda>e. recommendationLevel e = Some HIGHLY_RECOMMENDED \<or> isUserCreated e = Some True) all"

section \<open>App.tsx\<close>

record app =
  userProfile :: "UserProfile option"
  userEvents :: "EventItem list"

definition UserProfile_json :: "UserProfile \<Rightarrow> json" where
  "UserProfile_json p =
     JObj [(''name'', JStr (name p)),
           (''hasOnboarded'', JBool (hasOnboarded p)),
           (''interests'', JArr (map JStr (interests p))),
           (''spotifyConnected'', JBool (spotifyConnected p)),
           (''topArtists'', JArr (map JStr (topArtists p))),
           (''currentCity'', JStr (currentCity p))]"

definition persistProfile :: "platform \<Rightarrow> UserProfile option \<Rightarrow> storage \<Rightarrow> error + storage" where
  \<comment> \<open>the effect of lines 33-39\<close>
  "persistProfile P up st =
     (case up of
        Some p \<Rightarrow> setItem P ''citysense_user_profile'' (JSON_stringify P (UserProfile_json p)) st
      | None \<Rightarrow> Inr (removeItem ''citysense_user_profile'' st))"

definition handleReset :: "app \<Rightarrow> storage \<Rightarrow> app \<times> storage" where
  "handleReset a st =
     (a\<lparr>userProfile := None\<rparr>,
      fold (\<lambda>key s. if startsWith key ''CITYSENSE_EVENTS_CACHE_'' then removeItem key s else s)
           (keys st) st)"

definition handleReset_rendered :: "platform \<Rightarrow> app \<Rightarrow> storage \<Rightarrow> error + app \<times> storage" where
  \<comment> \<open>\<open>handleReset\<close>, then the effects React runs after the render: the one of lines 33-39 when
      \<open>userProfile\<close> has changed; the one of lines 42-44 does not run, \<open>userEvents\<close> is the same\<close>
  "handleReset_rendered P a st =
     (let (a', st1) = handleReset a st
      in if userProfile a' \<noteq> userProfile a
         then (case persistProfile P (userProfile a') st1 of
                 Inl e \<Rightarrow> Inl e
               | Inr st2 \<Rightarrow> Inr (a', st2))
         else Inr (a', st1))"

section \<open>Predicates used in the statements\<close>









section \<open>Concrete inputs\<close>

text \<open>
  Inputs at which the theorems below are evaluated. \<open>platform0\<close> is a platform whose model
  answers the daily request with a fenced array of two records, the first without \<open>id\<close>,
  \<open>imageUrl\<close> and \<open>link\<close>; its \<open>JSON.parse\<close> and \<open>JSON.stringify\<close> are defined on the
  payloads that occur here and agree with the real ones there.
\<close>

definition profileA :: UserProfile where
  "profileA = \<lparr>name = ''Ana'', hasOnboarded = True, interests = [''Jazz'', ''Art Galleries''],
     spotifyConnected = False, topArtists = [], currentCity = []\<rparr>"

definition profileB :: UserProfile where
  "profileB = \<lparr>name = ''Ana'', hasOnboarded = True, interests = [''Art Galleries'', ''Jazz''],
     spotifyConnected = False, topArtists = [], currentCity = ''Miami, USA''\<rparr>"

definition today0 :: string where
  "today0 = ''Fri Oct 27 2023''"

definition key0 :: string where
  "key0 = ''CITYSENSE_EVENTS_CACHE_Fri Oct 27 2023_miami,usa_Art Galleries-Jazz''"

definition clock0 :: "nat \<Rightarrow> int" where
  "clock0 idx = 1700000000000 + int idx"

definition rawEvent1 :: json where
  "rawEvent1 = JObj [(''title'', JStr ''Jazz Night'')]"

definition rawEvent2 :: json where
  "rawEvent2 = JObj [(''id'', JStr ''e1''), (''title'', JStr ''Expo''),
                     (''imageUrl'', JStr ''u''), (''link'', JStr ''l'')]"

definition normEvent1 :: json where
  "normEvent1 =
     JObj [(''title'', JStr ''Jazz Night''),
           (''id'', JStr ''evt-Mia-0-1700000000000''),
           (''imageUrl'', JStr ''https://picsum.photos/seed/JazzNight0/800/600''),
           (''link'', JStr ''https://www.google.com/search?q=Jazz%20Night%20Miami%2C%20USA%20tickets'')]"

definition response0 :: string where
  \<open>response0 =
     ''```json[{"title":"Jazz Night"},{"id":"e1","title":"Expo","imageUrl":"u","link":"l"}]```''\<close>

definition payload0 :: string where
  \<open>payload0 = ''[{"title":"Jazz Night","id":"evt-Mia-0-1700000000000","imageUrl":"https://picsum.photos/seed/JazzNight0/800/600","link":"https://www.google.com/search?q=Jazz%20Night%20Miami%2C%20USA%20tickets"},{"id":"e1","title":"Expo","imageUrl":"u","link":"l"}]''\<close>

definition parse0 :: "string \<Rightarrow> json option" where
  \<open>parse0 s =
     (if s = ''[{"title":"Jazz Night"},{"id":"e1","title":"Expo","imageUrl":"u","link":"l"}]''
      then Some (JArr [rawEvent1, rawEvent2])
      else if s = payload0 then Some (JArr [normEvent1, rawEvent2])
      else if s = ''[]'' then Some (JArr [])
      else if s = ''{}'' then Some (JObj [])
      else None)\<close>

definition stringify0 :: "json \<Rightarrow> string" where
  "stringify0 v =
     (if v = JArr [normEvent1, rawEvent2] then payload0
      else if v = JArr [] then ''[]''
      else if v = JObj [] then ''{}''
      else ''null'')"

definition encode0 :: "string \<Rightarrow> string option" where
  "encode0 s =
     Some (concat (map (\<lambda>c. if c = CHR '' '' then ''%20''
                             else if c = CHR '','' then ''%2C'' else [c]) s))"

definition platform0 :: platform where
  "platform0 =
     \<lparr>API_KEY = Some ''key'',
      generateContent = (\<lambda>p. case p of
          IdentifyCityPrompt latitude longitude \<Rightarrow> Inr (Some '' Miami, USA '')
        | SearchPrompt city query \<Rightarrow> Inr (Some ''not json'')
        | DailyPrompt city profile \<Rightarrow> Inr (Some response0)),
      JSON_parse = parse0,
      JSON_stringify = stringify0,
      ToString = (\<lambda>v. None),
      encodeURIComponent = encode0,
      storage_fits = (\<lambda>st. True)\<rparr>"

definition platform_down :: platform where
  \<comment> \<open>the same platform with the model unreachable\<close>
  "platform_down = platform0\<lparr>generateContent := (\<lambda>p. Inl (CollaboratorError ''503''))\<rparr>"

definition event_hr :: EventItem where
  "event_hr = \<lparr>id_ev = ''e1'', title = ''Expo'', description = [], date = [], location = [],
     category = ''Arts'', imageUrl = None, link = None,
     recommendationLevel = Some HIGHLY_RECOMMENDED, justification = None, price = None,
     coordinates = None, isUserCreated = None\<rparr>"

definition event_consider :: EventItem where
  "event_consider = event_hr\<lparr>id_ev := ''e2'', recommendationLevel := Some CONSIDER\<rparr>"

definition event_user :: EventItem where
  "event_user = event_hr\<lparr>id_ev := ''u1'', recommendationLevel := Some NOT_RECOMMENDED,
     isUserCreated := Some True\<rparr>"

definition app0 :: app where
  "app0 = \<lparr>userProfile = Some profileB, userEvents = []\<rparr>"

definition storage0 :: storage where
  "storage0 = [(''citysense_user_profile'', ''{}''), (''citysense_user_events'', ''[]''),
               (key0, payload0), (''savedEvents'', ''[]'')]"

definition world0 :: world where
  "world0 = \<lparr>store = [(''savedEvents'', ''[]'')], requests = []\<rparr>"

definition world1 :: world where
  "world1 = \<lparr>store = [(''savedEvents'', ''[]''), (key0, payload0)],
              requests = [DailyPrompt ''Miami, USA'' profileA]\<rparr>"




definition today1 :: string where
  "today1 = ''Sat Oct 28 2023''"

definition key1 :: string where
  "key1 = ''CITYSENSE_EVENTS_CACHE_Sat Oct 28 2023_miami,usa_Art Galleries-Jazz''"

definition world2 :: world where
  "world2 = \<lparr>store = [(''savedEvents'', ''[]''), (key1, payload0)],
              requests = [DailyPrompt ''Miami, USA'' profileA, DailyPrompt ''Miami, USA'' profileA]\<rparr>"





definition dashboard0 :: dashboard where
  "dashboard0 = \<lparr>events = JArr [], loading = True, error = None\<rparr>"

definition key_old :: string where
  "key_old = ''CITYSENSE_EVENTS_CACHE_Thu Oct 26 2023_miami,usa_Jazz''"

definition world_stale :: world where
  "world_stale = \<lparr>store = [(key_old, payload0), (key0, payload0)], requests = []\<rparr>"

definition world_two_stale :: world where
  "world_two_stale = \<lparr>store = [(''savedEvents'', ''[]''), (key_old, payload0), (key0, payload0)],
                       requests = []\<rparr>"

definition world_evicted :: world where
  "world_evicted = \<lparr>store = [(''savedEvents'', ''[]''), (key1, payload0)],
                     requests = [DailyPrompt ''Miami, USA'' profileA]\<rparr>"






section \<open>The cache key\<close>

lemma sort_mset_cong: "mset xs = mset ys \<Longrightarrow> sort xs = sort (ys :: string list)"
  by (metis properties_for_sort sorted_sort mset_sort)

text \<open>
  C4. The cache key is a function of the day string, the city and the interests only; two
  interest lists that are permutations of each other, and two cities that are equal once
  white space is removed and the letters are lowered, give the same key on the same day.
\<close>

theorem generateCacheKey_invariant:
  assumes "mset (interests p1) = mset (interests p2)"
      and "toLowerCase (stripWhitespace city1) = toLowerCase (stripWhitespace city2)"
  shows "generateCacheKey day city1 p1 = generateCacheKey day city2 p2"
  using assms sort_mset_cong [of "interests p1" "interests p2"]
  by (simp add: generateCacheKey_def)

theorem generateCacheKey_invariant_witness:
  "mset (interests profileA) = mset (interests profileB)
   \<and> toLowerCase (stripWhitespace ''Miami, USA'') = toLowerCase (stripWhitespace '' miami,  Usa'')
   \<and> generateCacheKey today0 ''Miami, USA'' profileA
       = generateCacheKey today0 '' miami,  Usa'' profileB"
proof -
  have a: "mset (interests profileA) = mset (interests profileB)"
    by (simp add: profileA_def profileB_def)
  have b: "toLowerCase (stripWhitespace ''Miami, USA'')
           = toLowerCase (stripWhitespace '' miami,  Usa'')"
    by (simp add: toLowerCase_def stripWhitespace_def isSpace_def isUpper_def)
  show ?thesis
    using a b generateCacheKey_invariant [OF a b] by blast
qed

section \<open>Top picks\<close>

text \<open>
  C9. Over the merged list of the user's events and the fetched ones, \<open>topPicks\<close> keeps an
  event exactly when its recommendation level is Highly Recommended or it is user-created,
  whatever level a user-created event carries; it keeps every occurrence of such an event,
  in the order of the merged list, and nothing else.
\<close>

theorem topPicks_exact:
  "(\<forall>e. e \<in> set (topPicks (allEvents us es)) \<longleftrightarrow>
          e \<in> set (allEvents us es) \<and>
          (recommendationLevel e = Some HIGHLY_RECOMMENDED \<or> isUserCreated e = Some True))
   \<and> (\<forall>e. count (mset (topPicks (allEvents us es))) e =
          (if recommendationLevel e = Some HIGHLY_RECOMMENDED \<or> isUserCreated e = Some True
           then count (mset (allEvents us es)) e else 0))
   \<and> subseq (topPicks (allEvents us es)) (allEvents us es)"
proof (intro conjI allI)
  fix e
  show "e \<in> set (topPicks (allEvents us es)) \<longleftrightarrow>
          e \<in> set (allEvents us es) \<and>
          (recommendationLevel e = Some HIGHLY_RECOMMENDED \<or> isUserCreated e = Some True)"
    by (auto simp: topPicks_def)
next
  fix e
  show "count (mset (topPicks (allEvents us es))) e =
          (if recommendationLevel e = Some HIGHLY_RECOMMENDED \<or> isUserCreated e = Some True
           then count (mset (allEvents us es)) e else 0)"
    by (simp add: topPicks_def)
next
  show "subseq (topPicks (allEvents us es)) (allEvents us es)"
    by (simp add: topPicks_def)
qed

theorem topPicks_exact_witness:
  "topPicks (allEvents [event_user] [event_consider, event_hr]) = [event_user, event_hr]
   \<and> (event_user \<in> set (topPicks (allEvents [event_user] [event_consider, event_hr])))
   \<and> (event_consider \<notin> set (topPicks (allEvents [event_user] [event_consider, event_hr])))"
proof -
  have "topPicks (allEvents [event_user] [event_consider, event_hr]) = [event_user, event_hr]"
    by (simp add: topPicks_def allEvents_def event_user_def event_consider_def event_hr_def)
  moreover have "recommendationLevel event_user = Some NOT_RECOMMENDED"
    and "isUserCreated event_user = Some True"
    and "recommendationLevel event_consider = Some CONSIDER"
    and "isUserCreated event_consider = None"
    by (simp_all add: event_user_def event_consider_def event_hr_def)
  ultimately show ?thesis
    using topPicks_exact [of "[event_user]" "[event_consider, event_hr]"]
    by (simp add: allEvents_def)
qed

section \<open>The storage\<close>

lemma keys_removeItem: "keys (removeItem k st) = filter (\<lambda>k'. k' \<noteq> k) (keys st)"
  by (induction st) (auto simp: keys_def removeItem_def)

lemma getItem_removeItem: "getItem (removeItem k st) k' = (if k' = k then None else getItem st k')"
  by (auto simp: getItem_def removeItem_def delete_conv)

lemma fold_remove_getItem:
  "getItem (fold (\<lambda>key s. if Q key then removeItem key s else s) ks st) k =
     (if k \<in> set ks \<and> Q k then None else getItem st k)"
  by (induction ks arbitrary: st) (auto simp: getItem_removeItem)

lemma fold_remove_keys:
  "keys (fold (\<lambda>key s. if Q key then removeItem key s else s) ks st) =
     filter (\<lambda>k. \<not> (k \<in> set ks \<and> Q k)) (keys st)"
proof (induction ks arbitrary: st)
  case Nil
  show ?case by simp
next
  case (Cons x xs)
  show ?case
    by (simp add: Cons.IH keys_removeItem) (auto intro: filter_cong)
qed

lemma startsWith_user_events: "\<not> startsWith ''citysense_user_events'' ''CITYSENSE_EVENTS_CACHE_''"
  by (simp add: startsWith_def)

lemma startsWith_savedEvents: "\<not> startsWith ''savedEvents'' ''CITYSENSE_EVENTS_CACHE_''"
  by (simp add: startsWith_def)

lemma getItem_None_iff: "getItem st k = None \<longleftrightarrow> k \<notin> set (keys st)"
  by (simp add: getItem_def keys_def map_of_eq_None_iff)

section \<open>Profile reset\<close>

text \<open>
  C10. A reset, available once a profile exists, removes the stored profile and every key
  with the cache prefix, and leaves every other entry of the storage as it was, among them
  the user's events under \<open>citysense_user_events\<close> and the saved ids under \<open>savedEvents\<close>;
  the list of the user's events in the state of the application is unchanged too.
\<close>

theorem handleReset_frame:
  assumes "userProfile a \<noteq> None"
  shows "\<exists>a' st'. handleReset_rendered P a st = Inr (a', st')
           \<and> userProfile a' = None \<and> userEvents a' = userEvents a
           \<and> getItem st' ''citysense_user_profile'' = None
           \<and> (\<forall>k. startsWith k CACHE_KEY_PREFIX \<longrightarrow> getItem st' k = None \<and> k \<notin> set (keys st'))
           \<and> getItem st' ''citysense_user_events'' = getItem st ''citysense_user_events''
           \<and> getItem st' ''savedEvents'' = getItem st ''savedEvents''
           \<and> (\<forall>k. k \<noteq> ''citysense_user_profile'' \<and> \<not> startsWith k CACHE_KEY_PREFIX
                  \<longrightarrow> getItem st' k = getItem st k)"
proof -
  define st1 where "st1 = snd (handleReset a st)"
  define st2 where "st2 = removeItem ''citysense_user_profile'' st1"
  have run: "handleReset_rendered P a st = Inr (a\<lparr>userProfile := None\<rparr>, st2)"
    using assms
    by (auto simp: handleReset_rendered_def handleReset_def persistProfile_def st1_def st2_def)
  have get1: "getItem st1 k = (if k \<in> set (keys st) \<and> startsWith k CACHE_KEY_PREFIX
                               then None else getItem st k)" for k
    by (simp add: st1_def handleReset_def fold_remove_getItem CACHE_KEY_PREFIX_def)
  have get2: "getItem st2 k =
                (if k = ''citysense_user_profile'' \<or> startsWith k CACHE_KEY_PREFIX
                 then None else getItem st k)" for k
    using getItem_None_iff [of st k]
    by (auto simp: st2_def getItem_removeItem get1)
  have "getItem st2 ''citysense_user_events'' = getItem st ''citysense_user_events''"
    by (simp add: get2 startsWith_def CACHE_KEY_PREFIX_def)
  moreover have "getItem st2 ''savedEvents'' = getItem st ''savedEvents''"
    by (simp add: get2 startsWith_def CACHE_KEY_PREFIX_def)
  moreover have "\<forall>k. startsWith k CACHE_KEY_PREFIX \<longrightarrow> getItem st2 k = None \<and> k \<notin> set (keys st2)"
    using getItem_None_iff [of st2] get2 by metis
  ultimately show ?thesis
    using run by (simp add: get2)
qed

theorem handleReset_frame_witness:
  "userProfile app0 \<noteq> None
   \<and> handleReset_rendered platform0 app0 storage0 =
       Inr (app0\<lparr>userProfile := None\<rparr>, [(''citysense_user_events'', ''[]''), (''savedEvents'', ''[]'')])"
proof -
  have h: "userProfile app0 \<noteq> None" by (simp add: app0_def)
  have "handleReset_rendered platform0 app0 storage0 =
       Inr (app0\<lparr>userProfile := None\<rparr>, [(''citysense_user_events'', ''[]''), (''savedEvents'', ''[]'')])"
    by (simp add: handleReset_rendered_def handleReset_def persistProfile_def app0_def storage0_def
          keys_def removeItem_def startsWith_def key0_def)
  then show ?thesis using h handleReset_frame [OF h, of platform0 storage0] by simp
qed

section \<open>The daily load\<close>

lemma startsWith_generateCacheKey:
  "startsWith (generateCacheKey today city profile) CACHE_KEY_PREFIX"
  by (simp add: generateCacheKey_def startsWith_def Let_def)

lemma getItem_cleanupOldCaches:
  "getItem (cleanupOldCaches cacheKey st) k =
     (if startsWith k CACHE_KEY_PREFIX \<and> k \<noteq> cacheKey then None else getItem st k)"
  using getItem_None_iff [of st k]
  by (auto simp: cleanupOldCaches_def fold_remove_getItem)

lemma keys_cleanupOldCaches:
  "keys (cleanupOldCaches cacheKey st) =
     filter (\<lambda>k. \<not> (startsWith k CACHE_KEY_PREFIX \<and> k \<noteq> cacheKey)) (keys st)"
  by (auto simp: cleanupOldCaches_def fold_remove_keys intro: filter_cong)

lemma keys_update: "set (keys (AList.update k v st)) = insert k (set (keys st))"
  by (simp add: keys_def update_keys) auto

lemma distinct_keys_update: "distinct (keys st) \<Longrightarrow> distinct (keys (AList.update k v st))"
  by (simp add: keys_def distinct_update)

lemma getItem_update: "getItem (AList.update k v st) k' = (if k' = k then Some v else getItem st k')"
  by (simp add: getItem_def update_conv')


lemma distinct_keys_removeItem: "distinct (keys st) \<Longrightarrow> distinct (keys (removeItem k st))"
  by (simp add: keys_removeItem)

lemma distinct_keys_cleanup: "distinct (keys st) \<Longrightarrow> distinct (keys (cleanupOldCaches k st))"
  by (simp add: keys_cleanupOldCaches)

lemma cleanup_only_current:
  "k \<in> set (keys (cleanupOldCaches cacheKey st)) \<Longrightarrow> startsWith k CACHE_KEY_PREFIX \<Longrightarrow> k = cacheKey"
  by (auto simp: keys_cleanupOldCaches)

text \<open>What a fetch does to the world: nothing to the storage, or one write under the key.\<close>

lemma fetchFresh_cases:
  "(\<exists>w1. fetchFresh P clock cacheKey city profile w = (JArr [], w1) \<and> store w1 = store w)
   \<or> (\<exists>text evs st'. generateContent P (DailyPrompt city profile) = Inr text
         \<and> normalizeEvents P ''evt'' city clock (cleanAndParseJSON P text) = Inr evs
         \<and> evs \<noteq> []
         \<and> setItem P cacheKey (JSON_stringify P (JArr evs)) (store w) = Inr st'
         \<and> fetchFresh P clock cacheKey city profile w =
             (JArr evs, \<lparr>store = st', requests = requests w @ [DailyPrompt city profile]\<rparr>))"
  by (cases w) (auto simp: fetchFresh_def Let_def split: sum.splits)

lemma fetchFresh_store:
  "store (snd (fetchFresh P clock cacheKey city profile w)) = store w
   \<or> (\<exists>evs. evs \<noteq> [] \<and> fst (fetchFresh P clock cacheKey city profile w) = JArr evs
        \<and> store (snd (fetchFresh P clock cacheKey city profile w)) =
            AList.update cacheKey (JSON_stringify P (JArr evs)) (store w))"
  using fetchFresh_cases [of P clock cacheKey city profile w]
  by (auto simp: setItem_def Let_def split: if_splits)


lemma cache_hit:
  assumes "getItem (store w) (generateCacheKey today city profile) = Some s"
      and "s \<noteq> []" and "JSON_parse P s = Some v"
  shows "getInitialRecommendations P today clock city profile w = (v, w)"
  using assms by (simp add: getInitialRecommendations_def checkCache_def Let_def)

lemma checkCache_Inr:
  "checkCache P cacheKey st = Inr st1 \<Longrightarrow>
     (st1 = st \<or> st1 = removeItem cacheKey st)"
  by (auto simp: checkCache_def split: option.splits if_splits)

lemma checkCache_Inl:
  "checkCache P cacheKey st = Inl v \<Longrightarrow>
     \<exists>s. getItem st cacheKey = Some s \<and> s \<noteq> [] \<and> JSON_parse P s = Some v"
  by (auto simp: checkCache_def split: option.splits if_splits)


lemma load_miss:
  assumes "checkCache P (generateCacheKey today city profile) (store w) = Inr st1"
  shows "getInitialRecommendations P today clock city profile w =
           fetchFresh P clock (generateCacheKey today city profile) city profile
             (w\<lparr>store := cleanupOldCaches (generateCacheKey today city profile) st1\<rparr>)"
  using assms by (simp add: getInitialRecommendations_def Let_def)

lemma load_hit:
  assumes "checkCache P (generateCacheKey today city profile) (store w) = Inl v"
  shows "getInitialRecommendations P today clock city profile w = (v, w)"
  using assms by (simp add: getInitialRecommendations_def Let_def)

lemma load_stores_payload:
  assumes run: "getInitialRecommendations P today clock city profile w = (JArr es, w1)"
      and fetched: "requests w1 \<noteq> requests w"
      and nonempty: "es \<noteq> []"
  shows "getItem (store w1) (generateCacheKey today city profile) = Some (JSON_stringify P (JArr es))"
proof (cases "checkCache P (generateCacheKey today city profile) (store w)")
  case (Inl v)
  then have "w1 = w" using run load_hit [OF Inl, of clock] by simp
  with fetched show ?thesis by simp
next
  case (Inr st1)
  let ?key = "generateCacheKey today city profile"
  let ?w = "w\<lparr>store := cleanupOldCaches ?key st1\<rparr>"
  have r: "fetchFresh P clock ?key city profile ?w = (JArr es, w1)"
    using run load_miss [OF Inr, of clock] by simp
  from fetchFresh_cases [of P clock ?key city profile ?w] r nonempty
  obtain st' where "setItem P ?key (JSON_stringify P (JArr es)) (store ?w) = Inr st'"
    and "w1 = \<lparr>store = st', requests = requests ?w @ [DailyPrompt city profile]\<rparr>"
    by auto
  then show ?thesis
    by (auto simp: setItem_def Let_def getItem_update split: if_splits)
qed

lemma load_miss_store:
  assumes "checkCache P (generateCacheKey today city profile) (store w) = Inr st1"
  shows "store (snd (getInitialRecommendations P today clock city profile w))
              = cleanupOldCaches (generateCacheKey today city profile) st1
         \<or> (\<exists>v. store (snd (getInitialRecommendations P today clock city profile w))
                  = AList.update (generateCacheKey today city profile) v
                      (cleanupOldCaches (generateCacheKey today city profile) st1))"
  using load_miss [OF assms, of clock]
    fetchFresh_store [of P clock "generateCacheKey today city profile" city profile
                        "w\<lparr>store := cleanupOldCaches (generateCacheKey today city profile) st1\<rparr>"]
  by auto

lemma load_distinct:
  assumes "distinct (keys (store w))"
  shows "distinct (keys (store (snd (getInitialRecommendations P today clock city profile w))))"
proof (cases "checkCache P (generateCacheKey today city profile) (store w)")
  case (Inl v)
  then show ?thesis using assms load_hit [OF Inl, of clock] by simp
next
  case (Inr st1)
  have "distinct (keys (cleanupOldCaches (generateCacheKey today city profile) st1))"
    using checkCache_Inr [OF Inr] assms
    by (auto simp: distinct_keys_cleanup distinct_keys_removeItem)
  then show ?thesis
    using load_miss_store [OF Inr, of clock] by (auto simp: distinct_keys_update)
qed

lemma load_miss_only_current:
  assumes "checkCache P (generateCacheKey today city profile) (store w) = Inr st1"
      and "k \<in> set (keys (store (snd (getInitialRecommendations P today clock city profile w))))"
      and "startsWith k CACHE_KEY_PREFIX"
  shows "k = generateCacheKey today city profile"
  using load_miss_store [OF assms(1), of clock] assms(2,3)
  by (auto simp: keys_update dest: cleanup_only_current)

section \<open>The concrete platform, evaluated\<close>

lemma key0_eval: "generateCacheKey today0 ''Miami, USA'' profileA = key0"
  by (simp add: generateCacheKey_def profileA_def today0_def key0_def toLowerCase_def
        stripWhitespace_def isSpace_def isUpper_def CACHE_KEY_PREFIX_def)

lemma key0_eval_B: "generateCacheKey today0 '' miami,  Usa'' profileB = key0"
  by (simp add: generateCacheKey_def profileB_def today0_def key0_def toLowerCase_def
        stripWhitespace_def isSpace_def isUpper_def CACHE_KEY_PREFIX_def)

lemma key1_eval: "generateCacheKey today1 ''Miami, USA'' profileA = key1"
  by (simp add: generateCacheKey_def profileA_def today1_def key1_def toLowerCase_def
        stripWhitespace_def isSpace_def isUpper_def CACHE_KEY_PREFIX_def)

lemma parse_response0: "cleanAndParseJSON platform0 (Some response0) = JArr [rawEvent1, rawEvent2]"
  by (simp add: cleanAndParseJSON_def platform0_def response0_def stripFence_def trim_def
        isSpace_def startsWith_def endsWith_def parse0_def)

lemma normalize_rawEvent1:
  "normalizeEvent platform0 ''evt'' ''Miami, USA'' clock0 0 rawEvent1 = Inr normEvent1"
  by (simp add: normalizeEvent_def rawEvent1_def normEvent1_def platform0_def synthId_def
        placeholderImage_def searchLink_def encode0_def clock0_def string_of_int_def digit_def
        stripWhitespace_def isSpace_def string_of_nat.simps)

lemma normalize_rawEvent2:
  "normalizeEvent P src city clock idx rawEvent2 = Inr rawEvent2"
  by (simp add: normalizeEvent_def rawEvent2_def)

lemma normalize_response0:
  "normalizeEvents platform0 ''evt'' ''Miami, USA'' clock0 (JArr [rawEvent1, rawEvent2])
     = Inr [normEvent1, rawEvent2]"
  by (simp add: normalizeEvents_def normalize_rawEvent1 normalize_rawEvent2)

lemma stringify_payload0: "JSON_stringify platform0 (JArr [normEvent1, rawEvent2]) = payload0"
  by (simp add: platform0_def stringify0_def)

lemma parse_payload0: "JSON_parse platform0 payload0 = Some (JArr [normEvent1, rawEvent2])"
  by (simp add: platform0_def parse0_def payload0_def)

lemma payload0_nonempty: "payload0 \<noteq> []"
  by (simp add: payload0_def)

lemma platform0_fields:
  "API_KEY platform0 = Some ''key''"
  "generateContent platform0 (DailyPrompt city profile) = Inr (Some response0)"
  "generateContent platform0 (SearchPrompt city query) = Inr (Some ''not json'')"
  "generateContent platform0 (IdentifyCityPrompt latitude longitude) = Inr (Some '' Miami, USA '')"
  "storage_fits platform0 st"
  by (simp_all add: platform0_def)

lemma fetch_platform0:
  "fetchFresh platform0 clock0 k ''Miami, USA'' profile w =
     (JArr [normEvent1, rawEvent2],
      \<lparr>store = AList.update k payload0 (store w),
       requests = requests w @ [DailyPrompt ''Miami, USA'' profile]\<rparr>)"
  by (cases w) (simp add: fetchFresh_def getAIClient_def platform0_fields parse_response0
        normalize_response0 stringify_payload0 setItem_def)

lemma load0:
  "getInitialRecommendations platform0 today0 clock0 ''Miami, USA'' profileA world0
     = (JArr [normEvent1, rawEvent2], world1)"
proof -
  have "checkCache platform0 key0 (store world0) = Inr (store world0)"
    by (simp add: checkCache_def getItem_def world0_def key0_def)
  moreover have "cleanupOldCaches key0 (store world0) = store world0"
    by (simp add: cleanupOldCaches_def world0_def keys_def startsWith_def CACHE_KEY_PREFIX_def)
  ultimately show ?thesis
    by (simp add: getInitialRecommendations_def key0_eval fetch_platform0 world0_def world1_def
          key0_def)
qed

lemma load1:
  "getInitialRecommendations platform0 today1 clock0 ''Miami, USA'' profileA world1
     = (JArr [normEvent1, rawEvent2], world2)"
proof -
  have "checkCache platform0 key1 (store world1) = Inr (store world1)"
    by (simp add: checkCache_def getItem_def world1_def key0_def key1_def)
  moreover have "cleanupOldCaches key1 (store world1) = [(''savedEvents'', ''[]'')]"
    by (simp add: cleanupOldCaches_def world1_def keys_def startsWith_def CACHE_KEY_PREFIX_def
          removeItem_def key0_def key1_def)
  ultimately show ?thesis
    by (simp add: getInitialRecommendations_def key1_eval fetch_platform0 world1_def world2_def key1_def)
qed


section \<open>Cache hits\<close>

text \<open>
  C1. A daily load that fetched and returned a non-empty list \<open>es\<close> has written
  \<open>JSON.stringify(es)\<close> under its key. While the storage holds that payload under the key,
  and \<open>JSON.parse\<close> reads it back as \<open>es\<close>, every load of the same day whose city and
  interests give the same key returns exactly \<open>es\<close> and leaves the world as it is: no
  request is sent to the model and the storage is not written.
\<close>

theorem cached_load_returns_stored:
  assumes first: "getInitialRecommendations P today clock city profile w = (JArr es, w1)"
      and fetched: "requests w1 \<noteq> requests w"
      and nonempty: "es \<noteq> []"
      and parseable: "JSON_parse P (JSON_stringify P (JArr es)) = Some (JArr es)"
      and payload: "JSON_stringify P (JArr es) \<noteq> []"
      and same_key: "generateCacheKey today city' profile' = generateCacheKey today city profile"
      and kept: "getItem (store w2) (generateCacheKey today city profile)
                   = getItem (store w1) (generateCacheKey today city profile)"
  shows "getInitialRecommendations P today clock' city' profile' w2 = (JArr es, w2)"
proof -
  have "getItem (store w2) (generateCacheKey today city' profile')
          = Some (JSON_stringify P (JArr es))"
    using load_stores_payload [OF first fetched nonempty] same_key kept by simp
  then show ?thesis
    using payload parseable by (rule cache_hit)
qed

theorem cached_load_returns_stored_witness:
  "getInitialRecommendations platform0 today0 clock0 ''Miami, USA'' profileA world0
     = (JArr [normEvent1, rawEvent2], world1)
   \<and> requests world1 \<noteq> requests world0
   \<and> JSON_parse platform0 (JSON_stringify platform0 (JArr [normEvent1, rawEvent2]))
       = Some (JArr [normEvent1, rawEvent2])
   \<and> generateCacheKey today0 '' miami,  Usa'' profileB = generateCacheKey today0 ''Miami, USA'' profileA
   \<and> getInitialRecommendations platform0 today0 clock0 '' miami,  Usa'' profileB world1
       = (JArr [normEvent1, rawEvent2], world1)"
proof -
  have a: "requests world1 \<noteq> requests world0" by (simp add: world0_def world1_def)
  have b: "[normEvent1, rawEvent2] \<noteq> []" by simp
  have c: "JSON_parse platform0 (JSON_stringify platform0 (JArr [normEvent1, rawEvent2]))
       = Some (JArr [normEvent1, rawEvent2])"
    by (simp add: stringify_payload0 parse_payload0)
  have d: "JSON_stringify platform0 (JArr [normEvent1, rawEvent2]) \<noteq> []"
    by (simp add: stringify_payload0 payload0_nonempty)
  have e: "generateCacheKey today0 '' miami,  Usa'' profileB = generateCacheKey today0 ''Miami, USA'' profileA"
    by (simp add: key0_eval key0_eval_B)
  show ?thesis
    using a c e load0 cached_load_returns_stored [OF load0 a b c d e refl, of clock0]
    by simp
qed

section \<open>Eviction\<close>

lemma load_miss_other_keys:
  assumes miss: "checkCache P (generateCacheKey today city profile) (store w) = Inr st1"
      and other: "k \<noteq> generateCacheKey today city profile"
  shows "(k \<in> set (keys (store (snd (getInitialRecommendations P today clock city profile w))))
            \<longleftrightarrow> k \<in> set (keys (store w)) \<and> \<not> startsWith k CACHE_KEY_PREFIX)
       \<and> getItem (store (snd (getInitialRecommendations P today clock city profile w))) k
            = (if startsWith k CACHE_KEY_PREFIX then None else getItem (store w) k)"
proof -
  let ?key = "generateCacheKey today city profile"
  let ?final = "store (snd (getInitialRecommendations P today clock city profile w))"
  have st1: "st1 = store w \<or> st1 = removeItem ?key (store w)"
    using checkCache_Inr [OF miss] .
  have k1: "k \<in> set (keys st1) \<longleftrightarrow> k \<in> set (keys (store w))"
    using st1 other by (auto simp: keys_removeItem)
  have g1: "getItem st1 k = getItem (store w) k"
    using st1 other by (auto simp: getItem_removeItem)
  have fin: "?final = cleanupOldCaches ?key st1
             \<or> (\<exists>v. ?final = AList.update ?key v (cleanupOldCaches ?key st1))"
    using load_miss_store [OF miss, of clock] .
  have "k \<in> set (keys ?final) \<longleftrightarrow> k \<in> set (keys (cleanupOldCaches ?key st1))"
    using fin other by (auto simp: keys_update)
  moreover have "getItem ?final k = getItem (cleanupOldCaches ?key st1) k"
    using fin other by (auto simp: getItem_update)
  ultimately show ?thesis
    using other k1 g1 by (auto simp: keys_cleanupOldCaches getItem_cleanupOldCaches)
qed

lemma load_two_stale:
  "getInitialRecommendations platform0 today1 clock0 ''Miami, USA'' profileA world_two_stale
     = (JArr [normEvent1, rawEvent2], world_evicted)"
proof -
  have "checkCache platform0 key1 (store world_two_stale) = Inr (store world_two_stale)"
    by (simp add: checkCache_def getItem_def world_two_stale_def key0_def key1_def key_old_def)
  moreover have "cleanupOldCaches key1 (store world_two_stale) = [(''savedEvents'', ''[]'')]"
    by (simp add: cleanupOldCaches_def world_two_stale_def keys_def startsWith_def
          CACHE_KEY_PREFIX_def removeItem_def key0_def key1_def key_old_def)
  ultimately show ?thesis
    by (simp add: getInitialRecommendations_def key1_eval fetch_platform0 world_two_stale_def
          world_evicted_def key1_def)
qed

text \<open>
  C5, as amended. On a miss the load goes on with the storage from which every key with the
  cache prefix other than the current key has been removed, and the fetch, which alone
  writes the result, starts from that storage. So after a load that missed, run with no other
  writer in between, every other key with the cache prefix is gone, every entry without the
  prefix is as it was, and the only key with the cache prefix that can be left is the
  current key: at most one cache entry. A load that hits returns before the removal and
  leaves the storage as it found it.
\<close>

theorem miss_load_evicts_other_cache_keys:
  "(\<forall>st1. checkCache P (generateCacheKey today city profile) (store w) = Inr st1 \<longrightarrow>
       getInitialRecommendations P today clock city profile w =
         fetchFresh P clock (generateCacheKey today city profile) city profile
           (w\<lparr>store := cleanupOldCaches (generateCacheKey today city profile) st1\<rparr>)
       \<and> keys (cleanupOldCaches (generateCacheKey today city profile) st1) =
           filter (\<lambda>k. \<not> (startsWith k CACHE_KEY_PREFIX \<and> k \<noteq> generateCacheKey today city profile))
                  (keys st1)
       \<and> (\<forall>k. k \<noteq> generateCacheKey today city profile \<longrightarrow>
              (k \<in> set (keys (store (snd (getInitialRecommendations P today clock city profile w))))
                 \<longleftrightarrow> k \<in> set (keys (store w)) \<and> \<not> startsWith k CACHE_KEY_PREFIX)
              \<and> getItem (store (snd (getInitialRecommendations P today clock city profile w))) k
                   = (if startsWith k CACHE_KEY_PREFIX then None else getItem (store w) k))
       \<and> {k \<in> set (keys (store (snd (getInitialRecommendations P today clock city profile w)))).
             startsWith k CACHE_KEY_PREFIX} \<subseteq> {generateCacheKey today city profile}
       \<and> card {k \<in> set (keys (store (snd (getInitialRecommendations P today clock city profile w)))).
                 startsWith k CACHE_KEY_PREFIX} \<le> 1)
   \<and> (\<forall>v. checkCache P (generateCacheKey today city profile) (store w) = Inl v \<longrightarrow>
          getInitialRecommendations P today clock city profile w = (v, w))"
proof (intro conjI allI impI)
  fix st1
  assume miss: "checkCache P (generateCacheKey today city profile) (store w) = Inr st1"
  let ?key = "generateCacheKey today city profile"
  let ?final = "store (snd (getInitialRecommendations P today clock city profile w))"
  show "getInitialRecommendations P today clock city profile w =
         fetchFresh P clock ?key city profile (w\<lparr>store := cleanupOldCaches ?key st1\<rparr>)"
    using miss by (rule load_miss)
  show "keys (cleanupOldCaches ?key st1) =
           filter (\<lambda>k. \<not> (startsWith k CACHE_KEY_PREFIX \<and> k \<noteq> ?key)) (keys st1)"
    by (rule keys_cleanupOldCaches)
  show sub: "{k \<in> set (keys ?final). startsWith k CACHE_KEY_PREFIX} \<subseteq> {?key}"
    using load_miss_only_current [OF miss] by blast
  have "card {k \<in> set (keys ?final). startsWith k CACHE_KEY_PREFIX} \<le> card {?key}"
    using sub by (intro card_mono) auto
  then show "card {k \<in> set (keys ?final). startsWith k CACHE_KEY_PREFIX} \<le> 1"
    by simp
  fix k
  assume other: "k \<noteq> ?key"
  show "k \<in> set (keys ?final) \<longleftrightarrow> k \<in> set (keys (store w)) \<and> \<not> startsWith k CACHE_KEY_PREFIX"
    using load_miss_other_keys [OF miss other, of clock] by blast
  show "getItem ?final k = (if startsWith k CACHE_KEY_PREFIX then None else getItem (store w) k)"
    using load_miss_other_keys [OF miss other, of clock] by blast
next
  fix v
  assume "checkCache P (generateCacheKey today city profile) (store w) = Inl v"
  then show "getInitialRecommendations P today clock city profile w = (v, w)"
    by (rule load_hit)
qed

text \<open>
  The sentence of the specification fails for a load that hits while the storage holds a
  stale entry: the load completes and both cache entries are still there.
\<close>

theorem hit_keeps_stale_entry_counterexample:
  "getInitialRecommendations platform0 today0 clock0 ''Miami, USA'' profileA world_stale
     = (JArr [normEvent1, rawEvent2], world_stale)
   \<and> keys (store world_stale) = [key_old, key0]
   \<and> startsWith key_old CACHE_KEY_PREFIX \<and> startsWith key0 CACHE_KEY_PREFIX
   \<and> key_old \<noteq> key0"
proof -
  have "getItem (store world_stale) (generateCacheKey today0 ''Miami, USA'' profileA) = Some payload0"
    by (simp add: key0_eval getItem_def world_stale_def key_old_def key0_def)
  then have "getInitialRecommendations platform0 today0 clock0 ''Miami, USA'' profileA world_stale
     = (JArr [normEvent1, rawEvent2], world_stale)"
    using payload0_nonempty parse_payload0 by (rule cache_hit)
  then show ?thesis
    by (simp add: world_stale_def keys_def startsWith_def CACHE_KEY_PREFIX_def key_old_def key0_def)
qed

theorem miss_load_evicts_other_cache_keys_witness:
  "checkCache platform0 (generateCacheKey today1 ''Miami, USA'' profileA) (store world_two_stale)
     = Inr (store world_two_stale)
   \<and> keys (store world_two_stale) = [''savedEvents'', key_old, key0]
   \<and> getInitialRecommendations platform0 today1 clock0 ''Miami, USA'' profileA world_two_stale
       = (JArr [normEvent1, rawEvent2], world_evicted)
   \<and> keys (store world_evicted) = [''savedEvents'', key1]
   \<and> generateCacheKey today1 ''Miami, USA'' profileA = key1
   \<and> getItem (store world_evicted) key_old = None
   \<and> getItem (store world_evicted) key0 = None
   \<and> getItem (store world_evicted) ''savedEvents'' = Some ''[]''"
proof -
  have a: "checkCache platform0 (generateCacheKey today1 ''Miami, USA'' profileA) (store world_two_stale)
     = Inr (store world_two_stale)"
    by (simp add: key1_eval checkCache_def getItem_def world_two_stale_def key0_def key1_def
          key_old_def)
  have b: "keys (store world_two_stale) = [''savedEvents'', key_old, key0]"
    "keys (store world_evicted) = [''savedEvents'', key1]"
    by (simp_all add: keys_def world_two_stale_def world_evicted_def)
  have c: "getItem (store world_evicted) key_old = None"
    "getItem (store world_evicted) key0 = None"
    "getItem (store world_evicted) ''savedEvents'' = Some ''[]''"
    by (simp_all add: getItem_def world_evicted_def key_old_def key0_def key1_def)
  show ?thesis
    using a b c load_two_stale key1_eval
      miss_load_evicts_other_cache_keys [of platform0 today1 "''Miami, USA''" profileA
        world_two_stale clock0]
    by simp
qed

section \<open>Reading the cache\<close>




section \<open>Decimal numerals and synthesized ids\<close>








section \<open>Normalization\<close>















































section \<open>Ids within one result set\<close>









section \<open>The dashboard\<close>

lemma identifyCityFromCoords_cases:
  "(\<exists>t. getAIClient P = Inr () \<and> generateContent P (IdentifyCityPrompt lat lng) = Inr (Some t)
        \<and> trim t \<noteq> [] \<and> fst (identifyCityFromCoords P lat lng w) = trim t)
   \<or> (fst (identifyCityFromCoords P lat lng w) = ''Unknown Location''
       \<and> ((\<exists>e. getAIClient P = Inl e)
           \<or> (\<exists>e. generateContent P (IdentifyCityPrompt lat lng) = Inl e)
           \<or> generateContent P (IdentifyCityPrompt lat lng) = Inr None
           \<or> (\<exists>t. generateContent P (IdentifyCityPrompt lat lng) = Inr (Some t) \<and> trim t = [])))"
  by (auto simp: identifyCityFromCoords_def Let_def split: sum.splits option.splits)

lemma platform_down_fields:
  "API_KEY platform_down = Some ''key''"
  "generateContent platform_down p = Inl (CollaboratorError ''503'')"
  by (simp_all add: platform_down_def platform0_def)

lemma init_error_unchanged:
  "error (fst (init P geo today clock profile d w)) = error d
   \<and> loading (fst (init P geo today clock profile d w)) = False"
  by (simp add: init_def Let_def split_beta)

lemma fetchFresh_failed:
  assumes "getAIClient P = Inr ()" and "generateContent P (DailyPrompt city profile) = Inl e"
  shows "fetchFresh P clock cacheKey city profile w =
           (JArr [], w\<lparr>requests := requests w @ [DailyPrompt city profile]\<rparr>)"
  using assms by (simp add: fetchFresh_def)

text \<open>
  C7, as amended. The city is resolved only when the profile has none. Then, where
  geolocation is unsupported or fails, the city is the default \<open>New York, USA\<close>; where it
  gives a position, the model is asked for the city and its trimmed answer is taken; and
  where that step fails (no API key, an error of the call, no answer or a blank one) the
  city is the string \<open>Unknown Location\<close>, which \<open>identifyCityFromCoords\<close> returns in place of
  an exception, so the default city is not used.
\<close>

theorem resolveCity_fallbacks:
  "(currentCity profile \<noteq> [] \<longrightarrow> resolveCity P geo profile w = (currentCity profile, [], w))
   \<and> (currentCity profile = [] \<and> (geo = Unsupported \<or> geo = PositionError)
        \<longrightarrow> resolveCity P geo profile w = (''New York, USA'', [''New York, USA''], w))
   \<and> (\<forall>lat lng. currentCity profile = [] \<and> geo = Position lat lng \<longrightarrow>
         resolveCity P geo profile w =
           (fst (identifyCityFromCoords P lat lng w), [fst (identifyCityFromCoords P lat lng w)],
            snd (identifyCityFromCoords P lat lng w))
         \<and> ((\<exists>t. getAIClient P = Inr ()
                  \<and> generateContent P (IdentifyCityPrompt lat lng) = Inr (Some t)
                  \<and> trim t \<noteq> [] \<and> fst (resolveCity P geo profile w) = trim t)
             \<or> (fst (resolveCity P geo profile w) = ''Unknown Location''
                 \<and> ((\<exists>e. getAIClient P = Inl e)
                     \<or> (\<exists>e. generateContent P (IdentifyCityPrompt lat lng) = Inl e)
                     \<or> generateContent P (IdentifyCityPrompt lat lng) = Inr None
                     \<or> (\<exists>t. generateContent P (IdentifyCityPrompt lat lng) = Inr (Some t)
                             \<and> trim t = [])))))"
proof (intro conjI allI impI)
  assume "currentCity profile \<noteq> []"
  then show "resolveCity P geo profile w = (currentCity profile, [], w)"
    by (simp add: resolveCity_def)
next
  assume "currentCity profile = [] \<and> (geo = Unsupported \<or> geo = PositionError)"
  then show "resolveCity P geo profile w = (''New York, USA'', [''New York, USA''], w)"
    by (auto simp: resolveCity_def)
next
  fix lat lng
  assume a: "currentCity profile = [] \<and> geo = Position lat lng"
  then show r: "resolveCity P geo profile w =
           (fst (identifyCityFromCoords P lat lng w), [fst (identifyCityFromCoords P lat lng w)],
            snd (identifyCityFromCoords P lat lng w))"
    by (simp add: resolveCity_def split_beta)
  show "(\<exists>t. getAIClient P = Inr ()
                  \<and> generateContent P (IdentifyCityPrompt lat lng) = Inr (Some t)
                  \<and> trim t \<noteq> [] \<and> fst (resolveCity P geo profile w) = trim t)
             \<or> (fst (resolveCity P geo profile w) = ''Unknown Location''
                 \<and> ((\<exists>e. getAIClient P = Inl e)
                     \<or> (\<exists>e. generateContent P (IdentifyCityPrompt lat lng) = Inl e)
                     \<or> generateContent P (IdentifyCityPrompt lat lng) = Inr None
                     \<or> (\<exists>t. generateContent P (IdentifyCityPrompt lat lng) = Inr (Some t)
                             \<and> trim t = [])))"
    using identifyCityFromCoords_cases [of P lat lng w] r by simp
qed

text \<open>
  The sentence of the specification fails where geolocation succeeds and the call to the model throws:
  the city is \<open>Unknown Location\<close>, not the default.
\<close>

theorem resolveCity_unknown_location_counterexample:
  "generateContent platform_down (IdentifyCityPrompt 25 (- 80)) = Inl (CollaboratorError ''503'')
   \<and> resolveCity platform_down (Position 25 (- 80)) profileA world0 =
       (''Unknown Location'', [''Unknown Location''],
        world0\<lparr>requests := [IdentifyCityPrompt 25 (- 80)]\<rparr>)
   \<and> ''Unknown Location'' \<noteq> ''New York, USA''"
  by (simp add: resolveCity_def identifyCityFromCoords_def getAIClient_def platform_down_fields
        profileA_def world0_def)

theorem resolveCity_fallbacks_witness:
  "currentCity profileA = []
   \<and> resolveCity platform0 PositionError profileA world0 = (''New York, USA'', [''New York, USA''], world0)
   \<and> resolveCity platform0 (Position 25 (- 80)) profileA world0 =
       (''Miami, USA'', [''Miami, USA''], world0\<lparr>requests := [IdentifyCityPrompt 25 (- 80)]\<rparr>)
   \<and> currentCity profileB = ''Miami, USA''
   \<and> resolveCity platform0 PositionError profileB world0 = (''Miami, USA'', [], world0)"
proof -
  have a: "currentCity profileA = []" "currentCity profileB = ''Miami, USA''"
    by (simp_all add: profileA_def profileB_def)
  have t: "trim '' Miami, USA '' = ''Miami, USA''"
    by (simp add: trim_def isSpace_def)
  have b: "resolveCity platform0 (Position 25 (- 80)) profileA world0 =
       (''Miami, USA'', [''Miami, USA''], world0\<lparr>requests := [IdentifyCityPrompt 25 (- 80)]\<rparr>)"
    by (simp add: resolveCity_def identifyCityFromCoords_def getAIClient_def platform0_fields
        a t world0_def)
  show ?thesis
    using a b resolveCity_fallbacks [of profileA platform0 PositionError world0]
      resolveCity_fallbacks [of profileB platform0 PositionError world0]
    by simp
qed

text \<open>
  C2, as amended. When the call to the model fails during a daily load,
  \<open>getInitialRecommendations\<close> catches the failure and returns the empty list: \<open>init\<close> ends
  with no events, \<open>loading\<close> off and \<open>error\<close> as it was (no message is set), nothing is
  written under the cache key, and one request has been sent, with no retry.
\<close>

theorem failed_daily_load_is_silent:
  assumes city: "resolveCity P geo profile w = (city, updates, w1)"
      and miss: "checkCache P (generateCacheKey today city profile) (store w1) = Inr st1"
      and client: "getAIClient P = Inr ()"
      and failure: "generateContent P (DailyPrompt city profile) = Inl e"
  shows "init P geo today clock profile d w =
           (d\<lparr>events := JArr [], loading := False\<rparr>, updates,
            \<lparr>store = cleanupOldCaches (generateCacheKey today city profile) st1,
             requests = requests w1 @ [DailyPrompt city profile]\<rparr>)
         \<and> error (fst (init P geo today clock profile d w)) = error d
         \<and> events (fst (init P geo today clock profile d w)) = JArr []"
proof -
  have "getInitialRecommendations P today clock city profile w1 =
          (JArr [], \<lparr>store = cleanupOldCaches (generateCacheKey today city profile) st1,
                     requests = requests w1 @ [DailyPrompt city profile]\<rparr>)"
    using load_miss [OF miss, of clock] fetchFresh_failed [OF client failure]
    by (cases w1) simp
  then have "init P geo today clock profile d w =
           (d\<lparr>events := JArr [], loading := False\<rparr>, updates,
            \<lparr>store = cleanupOldCaches (generateCacheKey today city profile) st1,
             requests = requests w1 @ [DailyPrompt city profile]\<rparr>)"
    using city by (simp add: init_def)
  then show ?thesis by simp
qed

text \<open>
  The sentence of the specification fails on a platform whose model is unreachable: the dashboard ends
  with the empty list and no error message.
\<close>

theorem failed_daily_load_no_error_counterexample:
  "generateContent platform_down (DailyPrompt ''Miami, USA'' profileB)
     = Inl (CollaboratorError ''503'')
   \<and> init platform_down Unsupported today0 clock0 profileB dashboard0 world0 =
       (\<lparr>events = JArr [], loading = False, error = None\<rparr>, [],
        world0\<lparr>requests := [DailyPrompt ''Miami, USA'' profileB]\<rparr>)"
proof -
  have "checkCache platform_down key0 (store world0) = Inr (store world0)"
    by (simp add: checkCache_def getItem_def world0_def key0_def)
  moreover have "cleanupOldCaches key0 (store world0) = store world0"
    by (simp add: cleanupOldCaches_def world0_def keys_def startsWith_def CACHE_KEY_PREFIX_def)
  moreover have "generateCacheKey today0 ''Miami, USA'' profileB = key0"
    by (simp add: generateCacheKey_def profileB_def today0_def key0_def toLowerCase_def
        stripWhitespace_def isSpace_def isUpper_def CACHE_KEY_PREFIX_def)
  moreover have "resolveCity platform_down Unsupported profileB world0 = (''Miami, USA'', [], world0)"
    by (simp add: resolveCity_def profileB_def)
  ultimately show ?thesis
    by (simp add: init_def getInitialRecommendations_def fetchFresh_def getAIClient_def
          platform_down_fields dashboard0_def world0_def)
qed

theorem failed_daily_load_is_silent_witness:
  "resolveCity platform_down Unsupported profileB world0 = (''Miami, USA'', [], world0)
   \<and> checkCache platform_down (generateCacheKey today0 ''Miami, USA'' profileB) (store world0)
       = Inr (store world0)
   \<and> getAIClient platform_down = Inr ()
   \<and> generateContent platform_down (DailyPrompt ''Miami, USA'' profileB)
       = Inl (CollaboratorError ''503'')
   \<and> events (fst (init platform_down Unsupported today0 clock0 profileB dashboard0 world0)) = JArr []
   \<and> error (fst (init platform_down Unsupported today0 clock0 profileB dashboard0 world0)) = None
   \<and> requests (snd (snd (init platform_down Unsupported today0 clock0 profileB dashboard0 world0)))
       = [DailyPrompt ''Miami, USA'' profileB]"
proof -
  have k: "generateCacheKey today0 ''Miami, USA'' profileB = key0"
    by (simp add: generateCacheKey_def profileB_def today0_def key0_def toLowerCase_def
        stripWhitespace_def isSpace_def isUpper_def CACHE_KEY_PREFIX_def)
  have a: "resolveCity platform_down Unsupported profileB world0 = (''Miami, USA'', [], world0)"
    by (simp add: resolveCity_def profileB_def)
  have b: "checkCache platform_down (generateCacheKey today0 ''Miami, USA'' profileB) (store world0)
       = Inr (store world0)"
    by (simp add: k checkCache_def getItem_def world0_def key0_def)
  have c: "getAIClient platform_down = Inr ()"
    by (simp add: getAIClient_def platform_down_fields)
  have f: "generateContent platform_down (DailyPrompt ''Miami, USA'' profileB)
       = Inl (CollaboratorError ''503'')"
    by (simp add: platform_down_fields)
  show ?thesis
    using a b c f failed_daily_load_is_silent [OF a b c f, where clock = clock0 and d = dashboard0]
    by (simp add: dashboard0_def world0_def)
qed

end
